theory Spec2Isabelle
  imports Complex_Main
begin

section \<open>Text\<close>

text \<open>
  A Python \<open>str\<close> is a sequence of code points. The model covers the code points
  U+0000 to U+00FF, written \<open>Latin c\<close>, and the rupee sign U+20B9, which the price
  cleaner of \<open>excel_validator_web.py\<close> removes. The character classes below are the
  ones CPython 3 gives on these code points.
\<close>

datatype pychar = Latin char | Rupee

type_synonym pystr = "pychar list"

abbreviation lit :: "string \<Rightarrow> pystr" where
  "lit s \<equiv> map Latin s"

definition in_range :: "nat \<Rightarrow> nat \<Rightarrow> char \<Rightarrow> bool" where
  "in_range lo hi c = (lo \<le> of_char c \<and> (of_char c :: nat) \<le> hi)"

text \<open>\<open>str.isdigit\<close> on one character: the decimal digits and the superscripts 2, 3, 1.\<close>

fun isdigit_char :: "pychar \<Rightarrow> bool" where
  "isdigit_char (Latin c) = (in_range 0x30 0x39 c \<or> in_range 0xB2 0xB3 c \<or> c = CHR 0xB9)"
| "isdigit_char Rupee = False"

text \<open>\<open>str.isspace\<close> on one character: what \<open>str.strip()\<close> removes.\<close>

fun isspace_char :: "pychar \<Rightarrow> bool" where
  "isspace_char (Latin c) =
     (in_range 0x09 0x0D c \<or> in_range 0x1C 0x20 c \<or> c = CHR 0x85 \<or> c = CHR 0xA0)"
| "isspace_char Rupee = False"

text \<open>The class \<open>\d\<close> of \<open>re\<close> on a \<open>str\<close> pattern: the decimal digits.\<close>

fun re_digit :: "pychar \<Rightarrow> bool" where
  "re_digit (Latin c) = in_range 0x30 0x39 c"
| "re_digit Rupee = False"

text \<open>The class \<open>\w\<close> of \<open>re\<close> on a \<open>str\<close> pattern: alphanumeric or underscore.\<close>

fun re_word :: "pychar \<Rightarrow> bool" where
  "re_word (Latin c) =
     (in_range 0x30 0x39 c \<or> in_range 0x41 0x5A c \<or> c = CHR 0x5F \<or> in_range 0x61 0x7A c \<or>
      c = CHR 0xAA \<or> in_range 0xB2 0xB3 c \<or> c = CHR 0xB5 \<or> in_range 0xB9 0xBA c \<or>
      in_range 0xBC 0xBE c \<or> in_range 0xC0 0xD6 c \<or> in_range 0xD8 0xF6 c \<or>
      in_range 0xF8 0xFF c)"
| "re_word Rupee = False"

text \<open>\<open>s.replace(c, '')\<close> for a one-character \<open>c\<close>: every occurrence goes.\<close>

definition replace_empty :: "pychar \<Rightarrow> pystr \<Rightarrow> pystr" where
  "replace_empty c s = removeAll c s"

text \<open>\<open>s.isdigit()\<close>: at least one character, and all of them digits.\<close>

definition isdigit :: "pystr \<Rightarrow> bool" where
  "isdigit s = (s \<noteq> [] \<and> list_all isdigit_char s)"

text \<open>\<open>s.strip()\<close>: leading and trailing whitespace removed.\<close>

definition strip :: "pystr \<Rightarrow> pystr" where
  "strip s = rev (dropWhile isspace_char (rev (dropWhile isspace_char s)))"

section \<open>Regular expressions\<close>

text \<open>
  The two patterns of \<open>excel_validator.py\<close> use character classes, concatenation,
  \<open>?\<close>, \<open>+\<close> and a bounded repetition, between \<open>^\<close> and \<open>$\<close>. A pattern body is
  a regular expression over character classes, matched by derivatives. Whether
  \<open>re.match\<close> finds a match is independent of its backtracking order, so the
  matcher decides membership in the language only.
\<close>

datatype regex =
    Nothing
  | Nil_re
  | Sym "pychar \<Rightarrow> bool"
  | Alt regex regex
  | Cat regex regex
  | Rep regex

fun nullable :: "regex \<Rightarrow> bool" where
  "nullable Nothing = False"
| "nullable Nil_re = True"
| "nullable (Sym P) = False"
| "nullable (Alt r s) = (nullable r \<or> nullable s)"
| "nullable (Cat r s) = (nullable r \<and> nullable s)"
| "nullable (Rep r) = True"

fun deriv :: "pychar \<Rightarrow> regex \<Rightarrow> regex" where
  "deriv c Nothing = Nothing"
| "deriv c Nil_re = Nothing"
| "deriv c (Sym P) = (if P c then Nil_re else Nothing)"
| "deriv c (Alt r s) = Alt (deriv c r) (deriv c s)"
| "deriv c (Cat r s) =
     (if nullable r then Alt (Cat (deriv c r) s) (deriv c s) else Cat (deriv c r) s)"
| "deriv c (Rep r) = Cat (deriv c r) (Rep r)"

text \<open>The whole string is in the language of the pattern body.\<close>

fun fullmatch :: "regex \<Rightarrow> pystr \<Rightarrow> bool" where
  "fullmatch r [] = nullable r"
| "fullmatch r (c # cs) = fullmatch (deriv c r) cs"

text \<open>
  \<open>re.match(r'^body$', s)\<close> without flags: \<open>^\<close> holds at the start, and \<open>$\<close>
  holds at the end of the string and also just before a newline that ends the string.
\<close>

definition newline :: pychar where
  "newline = Latin (CHR 0x0A)"

definition re_match :: "regex \<Rightarrow> pystr \<Rightarrow> bool" where
  "re_match body s =
     (fullmatch body s \<or> (s \<noteq> [] \<and> last s = newline \<and> fullmatch body (butlast s)))"

definition one_or_more :: "regex \<Rightarrow> regex" where
  "one_or_more r = Cat r (Rep r)"

definition optional :: "regex \<Rightarrow> regex" where
  "optional r = Alt Nil_re r"

text \<open>\<open>r{n}\<close> and \<open>r{0,n}\<close>; \<open>r{m,n}\<close> is \<open>r{m}\<close> followed by \<open>r{0,n-m}\<close>.\<close>

fun exactly :: "nat \<Rightarrow> regex \<Rightarrow> regex" where
  "exactly 0 r = Nil_re"
| "exactly (Suc n) r = Cat r (exactly n r)"

fun at_most :: "nat \<Rightarrow> regex \<Rightarrow> regex" where
  "at_most 0 r = Nil_re"
| "at_most (Suc n) r = Alt Nil_re (Cat r (at_most n r))"

definition between :: "nat \<Rightarrow> nat \<Rightarrow> regex \<Rightarrow> regex" where
  "between m n r = Cat (exactly m r) (at_most (n - m) r)"

definition is_char :: "char \<Rightarrow> pychar \<Rightarrow> bool" where
  "is_char c x = (x = Latin c)"

text \<open>The class \<open>[\w\.-]\<close>.\<close>

definition word_dot_hyphen :: "pychar \<Rightarrow> bool" where
  "word_dot_hyphen x = (re_word x \<or> x = Latin CHR ''.'' \<or> x = Latin CHR ''-'')"

text \<open>The body of \<open>r'^[\w\.-]+@[\w\.-]+\.\w+$'\<close>.\<close>

definition email_pattern :: regex where
  "email_pattern =
     Cat (one_or_more (Sym word_dot_hyphen))
       (Cat (Sym (is_char CHR ''@''))
         (Cat (one_or_more (Sym word_dot_hyphen))
           (Cat (Sym (is_char CHR ''.'')) (one_or_more (Sym re_word)))))"

text \<open>The body of \<open>r'^\+?1?\d{9,15}$'\<close>.\<close>

definition phone_pattern :: regex where
  "phone_pattern =
     Cat (optional (Sym (is_char CHR ''+'')))
       (Cat (optional (Sym (is_char CHR ''1''))) (between 9 15 (Sym re_digit)))"





section \<open>Built-ins\<close>

text \<open>
  Exceptions are values. \<open>str(e)\<close> of a \<open>KeyError\<close> is the \<open>repr\<close> of its key; the
  only keys looked up without a guard are the four column names of the pricing
  validator, whose \<open>repr\<close> is the name between single quotes.
\<close>

datatype exn =
    ValueError pystr
  | OverflowError pystr
  | KeyError pystr
  | AttributeError pystr
  | TypeError pystr

definition quoted :: "pystr \<Rightarrow> pystr" where
  "quoted s = [Latin (CHR 0x27)] @ s @ [Latin (CHR 0x27)]"

fun str_exn :: "exn \<Rightarrow> pystr" where
  "str_exn (ValueError m) = m"
| "str_exn (OverflowError m) = m"
| "str_exn (KeyError k) = quoted k"
| "str_exn (AttributeError m) = m"
| "str_exn (TypeError m) = m"

text \<open>What an attribute of \<open>None\<close> raises: \<open>self.df\<close> is \<open>None\<close> until a file is loaded.\<close>

definition no_attribute :: "pystr \<Rightarrow> exn" where
  "no_attribute a =
     AttributeError (quoted (lit ''NoneType'') @ lit '' object has no attribute '' @ quoted a)"

text \<open>
  The numbers of Python (\<open>int\<close>, \<open>float\<close>) and the built-ins on them are no code of
  this repository. The validators are parametric in them: \<open>'n\<close> is the type of
  numbers, and a record of operations stands for
  \<open>float(s)\<close> on a \<open>str\<close> (raising \<open>ValueError\<close>),
  \<open>int(x)\<close> (raising on NaN and on the infinities),
  \<open>str(x)\<close>, \<open>repr\<close> of a list of \<open>str\<close>, \<open>format(x, ',.2f')\<close>,
  the comparisons \<open>x < y\<close>, \<open>x > y\<close>, \<open>x >= y\<close>, the product \<open>x * y\<close>,
  and the number an integer literal denotes.
\<close>

record 'n builtins =
  py_float :: "pystr \<Rightarrow> exn + 'n"
  py_int :: "'n \<Rightarrow> exn + int"
  py_str :: "'n \<Rightarrow> pystr"
  py_repr :: "pystr list \<Rightarrow> pystr"
  py_format :: "'n \<Rightarrow> pystr"
  py_lt :: "'n \<Rightarrow> 'n \<Rightarrow> bool"
  py_gt :: "'n \<Rightarrow> 'n \<Rightarrow> bool"
  py_ge :: "'n \<Rightarrow> 'n \<Rightarrow> bool"
  py_mul :: "'n \<Rightarrow> 'n \<Rightarrow> 'n"
  py_const :: "int \<Rightarrow> 'n"

section \<open>Tables\<close>

text \<open>
  A cell of the loaded frame is empty (NaN, what \<open>pd.isna\<close> tests), a string or a
  number. A row gives a cell for every column name of the frame; \<open>columns\<close> says
  which names the frame has, and the index of a row is its position.
\<close>

datatype 'n cell = Empty | Text pystr | Number 'n

record 'n table =
  columns :: "pystr list"
  rows :: "(pystr \<Rightarrow> 'n cell) list"

fun isna :: "'n cell \<Rightarrow> bool" where
  "isna Empty = True"
| "isna (Text s) = False"
| "isna (Number x) = False"

text \<open>\<open>str(value)\<close>; the empty cell is the float NaN, whose \<open>str\<close> is \<open>nan\<close>.\<close>

fun str_value :: "'n builtins \<Rightarrow> 'n cell \<Rightarrow> pystr" where
  "str_value L Empty = lit ''nan''"
| "str_value L (Text s) = s"
| "str_value L (Number x) = py_str L x"

text \<open>\<open>float(value)\<close>.\<close>

fun float_value :: "'n builtins \<Rightarrow> 'n cell \<Rightarrow> exn + 'n" where
  "float_value L Empty = py_float L (lit ''nan'')"
| "float_value L (Text s) = py_float L s"
| "float_value L (Number x) = Inr x"

text \<open>\<open>row[column]\<close> without a guard: a name the frame does not have raises.\<close>

definition getitem :: "'n table \<Rightarrow> (pystr \<Rightarrow> 'n cell) \<Rightarrow> pystr \<Rightarrow> exn + 'n cell" where
  "getitem t row column =
     (if column \<in> set (columns t) then Inr (row column) else Inl (KeyError column))"

section \<open>Loops that may raise\<close>

text \<open>
  A piece of code that appends records to a list and may raise is the pair of the
  exception it raised, if any, and the records it appended before. Running pieces in
  sequence stops at the first exception and keeps what was appended so far.
\<close>

type_synonym 'a run = "exn option \<times> 'a list"

fun then_run :: "'a run \<Rightarrow> 'a run \<Rightarrow> 'a run" where
  "then_run (Some e, xs) q = (Some e, xs)"
| "then_run (None, xs) q = (fst q, xs @ snd q)"

fun all_runs :: "'a run list \<Rightarrow> 'a run" where
  "all_runs [] = (None, [])"
| "all_runs (p # ps) = then_run p (all_runs ps)"

section \<open>The generic validator (\<open>excel_validator.py\<close>)\<close>

record 'n rule =
  required :: bool
  type_r :: "pystr option"
  min_r :: "'n option"
  max_r :: "'n option"
  allowed_values :: "pystr list option"

record 'n result =
  Row :: nat
  Column :: pystr
  Value :: "'n cell"
  Error :: pystr

record 'n excel_validator =
  validation_results :: "'n result list"
  df :: "'n table option"

definition validate_email :: "'n builtins \<Rightarrow> 'n cell \<Rightarrow> bool" where
  "validate_email L email = re_match email_pattern (str_value L email)"

definition validate_phone :: "'n builtins \<Rightarrow> 'n cell \<Rightarrow> bool" where
  "validate_phone L phone = re_match phone_pattern (str_value L phone)"

text \<open>The test of the \<open>numeric\<close> type: \<open>str(value).replace('.', '').isdigit()\<close>.\<close>

definition is_numeric_string :: "pystr \<Rightarrow> bool" where
  "is_numeric_string s = isdigit (replace_empty (Latin CHR ''.'') s)"


text \<open>Lines 64 to 86: the type validation, an \<open>if\<close>/\<open>elif\<close> chain that never raises.\<close>

definition type_validation ::
  "'n builtins \<Rightarrow> nat \<Rightarrow> pystr \<Rightarrow> 'n rule \<Rightarrow> 'n cell \<Rightarrow> 'n result list" where
  "type_validation L row_number column rule v =
     (case type_r rule of
        None \<Rightarrow> []
      | Some t \<Rightarrow>
          if t = lit ''email'' \<and> \<not> validate_email L v then
            [\<lparr>Row = row_number, Column = column, Value = v,
              Error = lit ''Invalid email format''\<rparr>]
          else if t = lit ''phone'' \<and> \<not> validate_phone L v then
            [\<lparr>Row = row_number, Column = column, Value = v,
              Error = lit ''Invalid phone number format''\<rparr>]
          else if t = lit ''numeric'' \<and> \<not> is_numeric_string (str_value L v) then
            [\<lparr>Row = row_number, Column = column, Value = v,
              Error = lit ''Not a valid number''\<rparr>]
          else [])"

text \<open>Lines 89 to 95: \<open>float(value)\<close> is not guarded.\<close>

definition min_validation ::
  "'n builtins \<Rightarrow> nat \<Rightarrow> pystr \<Rightarrow> 'n rule \<Rightarrow> 'n cell \<Rightarrow> 'n result run" where
  "min_validation L row_number column rule v =
     (case min_r rule of
        None \<Rightarrow> (None, [])
      | Some m \<Rightarrow>
          (case float_value L v of
             Inl e \<Rightarrow> (Some e, [])
           | Inr x \<Rightarrow>
               (None,
                if py_lt L x m then
                  [\<lparr>Row = row_number, Column = column, Value = v,
                    Error = lit ''Value below minimum ('' @ py_str L m @ lit '')''\<rparr>]
                else [])))"

text \<open>Lines 96 to 102.\<close>

definition max_validation ::
  "'n builtins \<Rightarrow> nat \<Rightarrow> pystr \<Rightarrow> 'n rule \<Rightarrow> 'n cell \<Rightarrow> 'n result run" where
  "max_validation L row_number column rule v =
     (case max_r rule of
        None \<Rightarrow> (None, [])
      | Some m \<Rightarrow>
          (case float_value L v of
             Inl e \<Rightarrow> (Some e, [])
           | Inr x \<Rightarrow>
               (None,
                if py_gt L x m then
                  [\<lparr>Row = row_number, Column = column, Value = v,
                    Error = lit ''Value above maximum ('' @ py_str L m @ lit '')''\<rparr>]
                else [])))"

text \<open>
  Lines 105 to 111: \<open>value not in rule['allowed_values']\<close>. The allowed values are
  strings, which a number never equals.
\<close>

fun value_in :: "'n cell \<Rightarrow> pystr list \<Rightarrow> bool" where
  "value_in (Text s) allowed = (s \<in> set allowed)"
| "value_in Empty allowed = False"
| "value_in (Number x) allowed = False"

definition list_validation ::
  "'n builtins \<Rightarrow> nat \<Rightarrow> pystr \<Rightarrow> 'n rule \<Rightarrow> 'n cell \<Rightarrow> 'n result list" where
  "list_validation L row_number column rule v =
     (case allowed_values rule of
        None \<Rightarrow> []
      | Some allowed \<Rightarrow>
          if \<not> value_in v allowed then
            [\<lparr>Row = row_number, Column = column, Value = v,
              Error = lit ''Value not in allowed list: '' @ py_repr L allowed\<rparr>]
          else [])"

text \<open>The body of the inner loop, lines 39 to 111, for one column and its rule.\<close>

definition validate_column ::
  "'n builtins \<Rightarrow> 'n table \<Rightarrow> nat \<Rightarrow> (pystr \<Rightarrow> 'n cell) \<Rightarrow> pystr \<times> 'n rule \<Rightarrow> 'n result run"
  where
  "validate_column L t row_number row cr =
     (let column = fst cr; rule = snd cr in
      if column \<notin> set (columns t) then
        (None, [\<lparr>Row = row_number, Column = column, Value = Text (lit ''N/A''),
                  Error = lit ''Column not found in Excel file''\<rparr>])
      else
        let v = row column in
        if required rule \<and> isna v then
          (None, [\<lparr>Row = row_number, Column = column, Value = v,
                    Error = lit ''Required field is empty''\<rparr>])
        else if isna v then (None, [])
        else
          all_runs
            [(None, type_validation L row_number column rule v),
             min_validation L row_number column rule v,
             max_validation L row_number column rule v,
             (None, list_validation L row_number column rule v)])"

text \<open>The body of the outer loop: \<open>row_number = index + 2\<close>, then every rule in turn.\<close>

definition validate_row ::
  "'n builtins \<Rightarrow> 'n table \<Rightarrow> (pystr \<times> 'n rule) list \<Rightarrow> nat \<times> (pystr \<Rightarrow> 'n cell) \<Rightarrow>
   'n result run" where
  "validate_row L t rules ir =
     all_runs (map (validate_column L t (fst ir + 2) (snd ir)) rules)"

text \<open>
  \<open>validate_data\<close>: the result list is replaced by the empty list; a validator that
  has no frame raises at \<open>self.df.iterrows()\<close>; otherwise the rows are visited in
  order. The value is the exception that left the method, if any, and the validator.
\<close>

definition validate_data ::
  "'n builtins \<Rightarrow> (pystr \<times> 'n rule) list \<Rightarrow> 'n excel_validator \<Rightarrow>
   exn option \<times> 'n excel_validator" where
  "validate_data L rules self =
     (case df self of
        None \<Rightarrow>
          (Some (no_attribute (lit ''iterrows'')), self\<lparr>validation_results := []\<rparr>)
      | Some t \<Rightarrow>
          (let r = all_runs (map (validate_row L t rules) (enumerate 0 (rows t)))
           in (fst r, self\<lparr>validation_results := snd r\<rparr>)))"

section \<open>The pricing validator (\<open>excel_validator_web.py\<close>)\<close>

record issue =
  Row_w :: nat
  Type_w :: pystr
  Error_w :: pystr

record summary =
  Total_Rows :: int
  Valid_Rows :: int
  Invalid_Rows :: int

record 'n ecommerce_validator =
  df_w :: "'n table option"
  errors :: "issue list"
  summary :: "summary option"

text \<open>\<open>str(cell).replace(',', '').replace(rupee, '').strip()\<close>, lines 26 to 28.\<close>

definition clean_price :: "pystr \<Rightarrow> pystr" where
  "clean_price s = strip (replace_empty Rupee (replace_empty (Latin CHR '','') s))"

definition price_cell ::
  "'n builtins \<Rightarrow> 'n table \<Rightarrow> (pystr \<Rightarrow> 'n cell) \<Rightarrow> pystr \<Rightarrow> exn + 'n" where
  "price_cell L t row column =
     (case getitem t row column of
        Inl e \<Rightarrow> Inl e
      | Inr v \<Rightarrow> py_float L (clean_price (str_value L v)))"

text \<open>Lines 31 to 34: the tax rate, as a percentage or as a fraction below 1.\<close>

definition tax_cell ::
  "'n builtins \<Rightarrow> 'n table \<Rightarrow> (pystr \<Rightarrow> 'n cell) \<Rightarrow> exn + 'n" where
  "tax_cell L t row =
     (case getitem t row (lit ''Tax Rate'') of
        Inl e \<Rightarrow> Inl e
      | Inr v \<Rightarrow>
          (case py_float L (strip (replace_empty (Latin CHR ''%'') (str_value L v))) of
             Inl e \<Rightarrow> Inl e
           | Inr tax_rate \<Rightarrow>
               Inr (if py_lt L tax_rate (py_const L 1) then py_mul L tax_rate (py_const L 100)
                    else tax_rate)))"

text \<open>Lines 26 to 34: the four cells in the order the code reads them.\<close>

definition parse_row ::
  "'n builtins \<Rightarrow> 'n table \<Rightarrow> (pystr \<Rightarrow> 'n cell) \<Rightarrow> exn + ('n \<times> 'n \<times> 'n \<times> 'n)" where
  "parse_row L t row =
     (case price_cell L t row (lit ''MAP'') of
        Inl e \<Rightarrow> Inl e
      | Inr map_price \<Rightarrow>
          (case price_cell L t row (lit ''MRP (O)'') of
             Inl e \<Rightarrow> Inl e
           | Inr mrp \<Rightarrow>
               (case price_cell L t row (lit ''Sale Price (inc tax)'') of
                  Inl e \<Rightarrow> Inl e
                | Inr sale_price \<Rightarrow>
                    (case tax_cell L t row of
                       Inl e \<Rightarrow> Inl e
                     | Inr tax_rate \<Rightarrow> Inr (map_price, mrp, sale_price, tax_rate)))))"

definition data_error :: "nat \<Rightarrow> exn \<Rightarrow> issue" where
  "data_error row_num e =
     \<lparr>Row_w = row_num, Type_w = lit ''Data Error'',
      Error_w = lit ''Invalid data in row: '' @ str_exn e\<rparr>"

definition price_error :: "'n builtins \<Rightarrow> nat \<Rightarrow> 'n \<Rightarrow> 'n \<Rightarrow> issue" where
  "price_error L row_num map_price mrp =
     \<lparr>Row_w = row_num, Type_w = lit ''Price Error'',
      Error_w = lit ''MAP ('' @ [Rupee] @ py_format L map_price @
                lit '') is greater than or equal to MRP ('' @ [Rupee] @ py_format L mrp @
                lit '')''\<rparr>"

definition tax_error :: "'n builtins \<Rightarrow> nat \<Rightarrow> int \<Rightarrow> 'n \<Rightarrow> int \<Rightarrow> issue" where
  "tax_error L row_num rate sale_price expected_tax =
     \<lparr>Row_w = row_num, Type_w = lit ''Tax Error'',
      Error_w = lit ''Incorrect tax rate '' @ py_str L (py_const L rate) @
                lit ''% for Sale Price '' @ [Rupee] @ py_format L sale_price @
                lit '' (should be '' @ py_str L (py_const L expected_tax) @ lit ''%)''\<rparr>"

definition expected_tax :: "'n builtins \<Rightarrow> 'n \<Rightarrow> int" where
  "expected_tax L sale_price = (if py_gt L sale_price (py_const L 999) then 18 else 12)"

text \<open>
  The body of the loop, lines 22 to 58: what one row appends to \<open>self.errors\<close>. The
  \<open>except\<close> clause catches whatever the \<open>try\<close> block raises, also \<open>int(tax_rate)\<close>
  after the price check has appended its record.
\<close>

definition check_row :: "'n builtins \<Rightarrow> 'n table \<Rightarrow> nat \<times> (pystr \<Rightarrow> 'n cell) \<Rightarrow> issue list"
  where
  "check_row L t ir =
     (let row_num = fst ir + 2 in
      case parse_row L t (snd ir) of
        Inl e \<Rightarrow> [data_error row_num e]
      | Inr (map_price, mrp, sale_price, tax_rate) \<Rightarrow>
          (if py_ge L map_price mrp then [price_error L row_num map_price mrp] else []) @
          (case py_int L tax_rate of
             Inl e \<Rightarrow> [data_error row_num e]
           | Inr rate \<Rightarrow>
               if rate \<noteq> expected_tax L sale_price then
                 [tax_error L row_num rate sale_price (expected_tax L sale_price)]
               else []))"

definition validate_prices_and_tax ::
  "'n builtins \<Rightarrow> 'n ecommerce_validator \<Rightarrow> exn option \<times> 'n ecommerce_validator" where
  "validate_prices_and_tax L self =
     (case df_w self of
        None \<Rightarrow> (Some (no_attribute (lit ''iterrows'')), self)
      | Some t \<Rightarrow>
          (None,
           self\<lparr>errors := errors self @ concat (map (check_row L t) (enumerate 0 (rows t)))\<rparr>))"

text \<open>\<open>validate\<close>, lines 60 to 75: the errors are reset, then the rows are checked,
  then the summary is written.\<close>

definition validate ::
  "'n builtins \<Rightarrow> 'n ecommerce_validator \<Rightarrow> exn option \<times> 'n ecommerce_validator" where
  "validate L self =
     (case validate_prices_and_tax L (self\<lparr>errors := []\<rparr>) of
        (Some e, self') \<Rightarrow> (Some e, self')
      | (None, self') \<Rightarrow>
          (case df_w self' of
             None \<Rightarrow>
               (Some (TypeError (lit ''object of type '' @ quoted (lit ''NoneType'') @
                                 lit '' has no len()'')), self')
           | Some t \<Rightarrow>
               (let total_rows = int (length (rows t));
                    invalid_rows = int (length (remdups (map Row_w (errors self'))))
                in (None,
                    self'\<lparr>summary := Some \<lparr>Total_Rows = total_rows,
                                            Valid_Rows = total_rows - invalid_rows,
                                            Invalid_Rows = invalid_rows\<rparr>\<rparr>))))"

text \<open>The rule set of \<open>main\<close>, lines 125 to 144, in the order of the dictionary.\<close>

definition validation_rules :: "'n builtins \<Rightarrow> (pystr \<times> 'n rule) list" where
  "validation_rules L =
     [(lit ''Email'',
       \<lparr>required = True, type_r = Some (lit ''email''), min_r = None, max_r = None,
        allowed_values = None\<rparr>),
      (lit ''Phone'',
       \<lparr>required = True, type_r = Some (lit ''phone''), min_r = None, max_r = None,
        allowed_values = None\<rparr>),
      (lit ''Age'',
       \<lparr>required = True, type_r = Some (lit ''numeric''), min_r = Some (py_const L 0),
        max_r = Some (py_const L 120), allowed_values = None\<rparr>),
      (lit ''Status'',
       \<lparr>required = True, type_r = None, min_r = None, max_r = None,
        allowed_values = Some [lit ''Active'', lit ''Inactive'', lit ''Pending'']\<rparr>)]"

section \<open>An instance of the built-ins\<close>

text \<open>
  The theorems below hold for every record of built-ins. To run the validators on
  concrete tables, \<open>decimal\<close> gives one: numbers are integers, decimal fractions
  \<open>m / 10 ^ d\<close> written \<open>PyFloat m d\<close>, and NaN, with exact arithmetic. \<open>float\<close>
  reads an optionally signed decimal numeral between whitespace, and \<open>nan\<close>. It is
  not CPython's \<open>float\<close>: it reads no exponent, underscore, \<open>inf\<close> or other spelling
  of \<open>nan\<close>, it computes exactly where binary floats round, and \<open>str\<close> and
  \<open>format\<close> follow the decimal digits. The statements below use it only on inputs
  where both agree.
\<close>

datatype num = PyInt int | PyFloat int nat | PyNaN

fun scaled :: "nat \<Rightarrow> num \<Rightarrow> int option" where
  "scaled D (PyInt k) = Some (k * 10 ^ D)"
| "scaled D (PyFloat m d) = Some (m * 10 ^ (D - d))"
| "scaled D PyNaN = None"

fun places :: "num \<Rightarrow> nat" where
  "places (PyFloat m d) = d"
| "places x = 0"

definition compare :: "(int \<Rightarrow> int \<Rightarrow> bool) \<Rightarrow> num \<Rightarrow> num \<Rightarrow> bool" where
  "compare rel a b =
     (case scaled (max (places a) (places b)) a of
        None \<Rightarrow> False
      | Some x \<Rightarrow>
          (case scaled (max (places a) (places b)) b of None \<Rightarrow> False | Some y \<Rightarrow> rel x y))"

fun num_mul :: "num \<Rightarrow> num \<Rightarrow> num" where
  "num_mul (PyInt a) (PyInt b) = PyInt (a * b)"
| "num_mul (PyInt a) (PyFloat m d) = PyFloat (a * m) d"
| "num_mul (PyFloat m d) (PyInt b) = PyFloat (m * b) d"
| "num_mul (PyFloat m d) (PyFloat m' d') = PyFloat (m * m') (d + d')"
| "num_mul a b = PyNaN"

fun num_int :: "num \<Rightarrow> exn + int" where
  "num_int (PyInt k) = Inr k"
| "num_int (PyFloat m d) = Inr (if 0 \<le> m then m div 10 ^ d else - ((- m) div 10 ^ d))"
| "num_int PyNaN = Inl (ValueError (lit ''cannot convert float NaN to integer''))"

definition digit_char :: "nat \<Rightarrow> pychar" where
  "digit_char d = lit ''0123456789'' ! d"

fun str_nat :: "nat \<Rightarrow> pystr" where
  "str_nat n = (if n < 10 then [digit_char n] else str_nat (n div 10) @ [digit_char (n mod 10)])"

definition str_int :: "int \<Rightarrow> pystr" where
  "str_int k = (if k < 0 then lit ''-'' @ str_nat (nat (- k)) else str_nat (nat k))"

definition zero_padded :: "nat \<Rightarrow> nat \<Rightarrow> pystr" where
  "zero_padded w n = replicate (w - length (str_nat n)) (Latin CHR ''0'') @ str_nat n"

definition fraction :: "nat \<Rightarrow> nat \<Rightarrow> pystr" where
  "fraction d n =
     (if n mod 10 ^ d = 0 then lit ''0''
      else rev (dropWhile (\<lambda>c. c = Latin CHR ''0'') (rev (zero_padded d (n mod 10 ^ d)))))"

fun num_str :: "num \<Rightarrow> pystr" where
  "num_str (PyInt k) = str_int k"
| "num_str (PyFloat m d) =
     (if m < 0 then lit ''-'' else []) @ str_nat (nat \<bar>m\<bar> div 10 ^ d) @ lit ''.'' @
     fraction d (nat \<bar>m\<bar>)"
| "num_str PyNaN = lit ''nan''"

fun group_rev :: "pystr \<Rightarrow> pystr" where
  "group_rev (a # b # c # d # ds) = a # b # c # Latin CHR '','' # group_rev (d # ds)"
| "group_rev ds = ds"

definition format_cents :: "nat \<Rightarrow> pystr" where
  "format_cents c =
     rev (group_rev (rev (str_nat (c div 100)))) @ lit ''.'' @
     [digit_char (c mod 100 div 10), digit_char (c mod 10)]"

definition half_even :: "nat \<Rightarrow> nat \<Rightarrow> nat" where
  "half_even n u =
     (if 2 * (n mod u) < u then n div u
      else if u < 2 * (n mod u) then n div u + 1
      else if even (n div u) then n div u else n div u + 1)"

definition cents :: "nat \<Rightarrow> nat \<Rightarrow> nat" where
  "cents n d = (if d \<le> 2 then n * 10 ^ (2 - d) else half_even n (10 ^ (d - 2)))"

fun num_format :: "num \<Rightarrow> pystr" where
  "num_format (PyInt k) = (if k < 0 then lit ''-'' else []) @ format_cents (cents (nat \<bar>k\<bar>) 0)"
| "num_format (PyFloat m d) =
     (if m < 0 then lit ''-'' else []) @ format_cents (cents (nat \<bar>m\<bar>) d)"
| "num_format PyNaN = lit ''nan''"

fun joined :: "pystr list \<Rightarrow> pystr" where
  "joined [] = []"
| "joined [x] = quoted x"
| "joined (x # y # ys) = quoted x @ lit '', '' @ joined (y # ys)"

definition repr_list :: "pystr list \<Rightarrow> pystr" where
  "repr_list xs = lit ''['' @ joined xs @ lit '']''"

fun digit_val :: "pychar \<Rightarrow> nat" where
  "digit_val (Latin c) = of_char c - 48"
| "digit_val Rupee = 0"

definition digits_val :: "pystr \<Rightarrow> nat" where
  "digits_val s = foldl (\<lambda>a c. 10 * a + digit_val c) 0 s"

definition unsigned :: "pystr \<Rightarrow> (nat \<times> nat) option" where
  "unsigned s =
     (let i = takeWhile re_digit s; r = dropWhile re_digit s in
      if r = [] then (if i = [] then None else Some (digits_val i, 0))
      else if hd r = Latin CHR ''.'' \<and> list_all re_digit (tl r) \<and> (i \<noteq> [] \<or> tl r \<noteq> [])
      then Some (digits_val (i @ tl r), length (tl r))
      else None)"

definition signed :: "pystr \<Rightarrow> num option" where
  "signed s =
     (case s of
        [] \<Rightarrow> None
      | c # cs \<Rightarrow>
          if c = Latin CHR ''-'' then map_option (\<lambda>(m, d). PyFloat (- int m) d) (unsigned cs)
          else if c = Latin CHR ''+'' then map_option (\<lambda>(m, d). PyFloat (int m) d) (unsigned cs)
          else map_option (\<lambda>(m, d). PyFloat (int m) d) (unsigned s))"

definition num_float :: "pystr \<Rightarrow> exn + num" where
  "num_float s =
     (if strip s = lit ''nan'' then Inr PyNaN
      else case signed (strip s) of
        None \<Rightarrow> Inl (ValueError (lit ''could not convert string to float: '' @ quoted s))
      | Some x \<Rightarrow> Inr x)"

definition decimal :: "num builtins" where
  "decimal =
     \<lparr>py_float = num_float, py_int = num_int, py_str = num_str, py_repr = repr_list,
      py_format = num_format, py_lt = compare (<), py_gt = compare (>), py_ge = compare (\<ge>),
      py_mul = num_mul, py_const = PyInt\<rparr>"

section \<open>Runs and records\<close>

lemma then_run_fst_None:
  "fst (then_run p q) = None \<longleftrightarrow> fst p = None \<and> fst q = None"
  by (cases p; cases "fst p") auto



lemma then_run_fst_Some:
  "fst (then_run p q) = Some e \<longleftrightarrow> fst p = Some e \<or> (fst p = None \<and> fst q = Some e)"
  by (cases p; cases "fst p") auto

lemma all_runs_fst_None:
  "fst (all_runs ps) = None \<longleftrightarrow> (\<forall>p\<in>set ps. fst p = None)"
  by (induction ps) (auto simp: then_run_fst_None)


lemma all_runs_fst_Some:
  "fst (all_runs ps) = Some e \<Longrightarrow> \<exists>p\<in>set ps. fst p = Some e"
  by (induction ps) (auto simp: then_run_fst_Some)

lemma all_runs_raises:
  "p \<in> set ps \<Longrightarrow> fst p = Some e \<Longrightarrow> \<exists>e'. fst (all_runs ps) = Some e'"
  using all_runs_fst_None [of ps] by (cases "fst (all_runs ps)") auto

lemma min_validation_fst:
  "fst (min_validation L n c rule v) = Some e \<longleftrightarrow> min_r rule \<noteq> None \<and> float_value L v = Inl e"
  by (auto simp: min_validation_def split: option.splits sum.splits)

lemma max_validation_fst:
  "fst (max_validation L n c rule v) = Some e \<longleftrightarrow> max_r rule \<noteq> None \<and> float_value L v = Inl e"
  by (auto simp: max_validation_def split: option.splits sum.splits)

lemma min_validation_fst_None:
  "fst (min_validation L n c rule v) = None \<longleftrightarrow> min_r rule = None \<or> (\<exists>x. float_value L v = Inr x)"
  by (auto simp: min_validation_def split: option.splits sum.splits)

lemma max_validation_fst_None:
  "fst (max_validation L n c rule v) = None \<longleftrightarrow> max_r rule = None \<or> (\<exists>x. float_value L v = Inr x)"
  by (auto simp: max_validation_def split: option.splits sum.splits)

lemma validate_column_fst_Some:
  "fst (validate_column L t n row (c, rule)) = Some e \<longleftrightarrow>
     c \<in> set (columns t) \<and> \<not> isna (row c) \<and> (min_r rule \<noteq> None \<or> max_r rule \<noteq> None) \<and>
     float_value L (row c) = Inl e"
  by (auto simp: validate_column_def Let_def then_run_fst_Some min_validation_fst
      max_validation_fst min_validation_fst_None)








lemma filter_concat_key:
  assumes "distinct (map fst xs)" and "(k, v) \<in> set xs"
    and "\<And>k' v'. (k', v') \<in> set xs \<Longrightarrow> k' \<noteq> k \<Longrightarrow> filter P (g (k', v')) = []"
  shows "filter P (concat (map g xs)) = filter P (g (k, v))"
  using assms
proof (induction xs)
  case Nil
  then show ?case by simp
next
  case (Cons x xs)
  show ?case
  proof (cases "x = (k, v)")
    case True
    have "filter P (concat (map g xs)) = []"
    proof -
      have "\<And>y. y \<in> set xs \<Longrightarrow> filter P (g y) = []"
      proof -
        fix y assume y: "y \<in> set xs"
        obtain k' v' where kv: "y = (k', v')" by (cases y)
        have "k' \<noteq> k" using Cons.prems(1) True y kv by force
        then show "filter P (g y) = []" using Cons.prems(3) [of k' v'] y kv by simp
      qed
      then show ?thesis by (induction xs) auto
    qed
    with True show ?thesis by simp
  next
    case False
    obtain k' v' where kv: "x = (k', v')" by (cases x)
    have mem: "(k, v) \<in> set xs" using Cons.prems(2) False by auto
    have "k' \<noteq> k" using Cons.prems(1) mem kv by force
    then have "filter P (g x) = []" using Cons.prems(3) [of k' v'] kv by simp
    moreover have "filter P (concat (map g xs)) = filter P (g (k, v))"
      using Cons.IH Cons.prems mem by auto
    ultimately show ?thesis by simp
  qed
qed



lemma validate_data_loaded:
  "df self = Some t \<Longrightarrow>
   validate_data L rules self =
     (fst (all_runs (map (validate_row L t rules) (enumerate 0 (rows t)))),
      self\<lparr>validation_results :=
             snd (all_runs (map (validate_row L t rules) (enumerate 0 (rows t))))\<rparr>)"
  by (simp add: validate_data_def Let_def)

lemma nth_in_enumerate:
  "i < length xs \<Longrightarrow> (i, xs ! i) \<in> set (enumerate 0 xs)"
  by (auto simp: in_set_enumerate_eq)



section \<open>Evaluation\<close>

text \<open>The equations that unfold the instance and the validators on concrete inputs.\<close>

lemmas ev = in_range_def strip_def signed_def unsigned_def digits_val_def num_float_def str_int_def digit_char_def compare_def quoted_def
  zero_padded_def fraction_def format_cents_def half_even_def cents_def repr_list_def decimal_def








section \<open>Cells, rows and runs: further lemmas\<close>





























lemma price_cell_present:
  "column \<in> set (columns t) \<Longrightarrow>
   price_cell L t row column =
     py_float L (strip (replace_empty Rupee (replace_empty (Latin CHR '','')
       (str_value L (row column)))))"
  by (simp add: price_cell_def getitem_def clean_price_def)

lemma price_cell_missing:
  "column \<notin> set (columns t) \<Longrightarrow> price_cell L t row column = Inl (KeyError column)"
  by (simp add: price_cell_def getitem_def)

lemma tax_cell_present:
  "lit ''Tax Rate'' \<in> set (columns t) \<Longrightarrow>
   py_float L (strip (replace_empty (Latin CHR ''%'') (str_value L (row (lit ''Tax Rate''))))) =
     Inr x \<Longrightarrow>
   tax_cell L t row =
     Inr (if py_lt L x (py_const L 1) then py_mul L x (py_const L 100) else x)"
  by (simp add: tax_cell_def getitem_def)

lemma parse_row_parsed:
  assumes "lit ''MAP'' \<in> set (columns t)" and "lit ''MRP (O)'' \<in> set (columns t)"
    and "lit ''Sale Price (inc tax)'' \<in> set (columns t)" and "lit ''Tax Rate'' \<in> set (columns t)"
    and "py_float L (strip (replace_empty Rupee (replace_empty (Latin CHR '','')
           (str_value L (row (lit ''MAP'')))))) = Inr map_price"
    and "py_float L (strip (replace_empty Rupee (replace_empty (Latin CHR '','')
           (str_value L (row (lit ''MRP (O)'')))))) = Inr mrp"
    and "py_float L (strip (replace_empty Rupee (replace_empty (Latin CHR '','')
           (str_value L (row (lit ''Sale Price (inc tax)'')))))) = Inr sale_price"
    and "py_float L (strip (replace_empty (Latin CHR ''%'')
           (str_value L (row (lit ''Tax Rate''))))) = Inr x"
  shows "parse_row L t row =
     Inr (map_price, mrp, sale_price,
          if py_lt L x (py_const L 1) then py_mul L x (py_const L 100) else x)"
  unfolding parse_row_def price_cell_present [OF assms(1)] price_cell_present [OF assms(2)]
    price_cell_present [OF assms(3)] tax_cell_present [of t L row x, OF assms(4) assms(8)] assms(5,6,7)
  by simp

lemma check_row_parsed:
  assumes "parse_row L t row = Inr (map_price, mrp, sale_price, tax_rate)"
  shows "check_row L t (i, row) =
     (if py_ge L map_price mrp then [price_error L (i + 2) map_price mrp] else []) @
     (case py_int L tax_rate of
        Inl e \<Rightarrow> [data_error (i + 2) e]
      | Inr rate \<Rightarrow>
          if rate \<noteq> expected_tax L sale_price then
            [tax_error L (i + 2) rate sale_price (expected_tax L sale_price)]
          else [])"
  using assms by (cases "py_int L tax_rate") (simp_all add: check_row_def Let_def)

lemma check_row_failed:
  "parse_row L t row = Inl e \<Longrightarrow> check_row L t (i, row) = [data_error (i + 2) e]"
  by (simp add: check_row_def Let_def)

lemma check_row_Row: "e \<in> set (check_row L t (i, row)) \<Longrightarrow> Row_w e = i + 2"
proof (cases "parse_row L t row")
  case (Inl x)
  assume "e \<in> set (check_row L t (i, row))"
  then show ?thesis
    unfolding check_row_failed [OF Inl] by (simp add: data_error_def)
next
  case (Inr p)
  obtain a b c d where p: "p = (a, b, c, d)" by (cases p) auto
  assume "e \<in> set (check_row L t (i, row))"
  then show ?thesis
    unfolding check_row_parsed [OF Inr [unfolded p]]
    by (cases "py_int L d")
      (auto simp: data_error_def price_error_def tax_error_def split: if_splits)
qed

lemma validate_loaded:
  "df_w self = Some t \<Longrightarrow>
   fst (validate L self) = None \<and>
   errors (snd (validate L self)) = concat (map (check_row L t) (enumerate 0 (rows t)))"
  by (simp add: validate_def validate_prices_and_tax_def Let_def)

lemma validate_row_errors:
  assumes "df_w self = Some t" and "i < length (rows t)"
  shows "filter (\<lambda>e. Row_w e = i + 2) (errors (snd (validate L self))) =
         check_row L t (i, rows t ! i)"
proof -
  let ?P = "\<lambda>e. Row_w e = i + 2"
  have mem: "(i, rows t ! i) \<in> set (enumerate 0 (rows t))"
    using assms(2) by (rule nth_in_enumerate)
  have "filter ?P (concat (map (check_row L t) (enumerate 0 (rows t)))) =
      filter ?P (check_row L t (i, rows t ! i))"
  proof (rule filter_concat_key [OF _ mem])
    show "distinct (map fst (enumerate 0 (rows t)))" by simp
  next
    fix k' v' assume "(k', v') \<in> set (enumerate 0 (rows t))" "k' \<noteq> i"
    then show "filter ?P (check_row L t (k', v')) = []"
      by (auto simp: filter_empty_conv dest: check_row_Row)
  qed
  moreover have "filter ?P (check_row L t (i, rows t ! i)) = check_row L t (i, rows t ! i)"
    by (auto simp: filter_id_conv dest: check_row_Row)
  ultimately show ?thesis
    using validate_loaded [OF assms(1), of L] by simp
qed

lemmas web = validate_def validate_prices_and_tax_def check_row_def parse_row_def price_cell_def
  tax_cell_def getitem_def clean_price_def replace_empty_def data_error_def price_error_def
  tax_error_def expected_tax_def enumerate_eq_zip Let_def

lemma filter_row_type:
  assumes "filter (\<lambda>e. Row_w e = n) es = xs"
  shows "filter (\<lambda>e. Row_w e = n \<and> Type_w e = ty) es = filter (\<lambda>e. Type_w e = ty) xs"
  using assms by (auto simp: filter_filter [symmetric] conj_commute simp del: filter_filter)

lemma parse_row_failure_kinds:
  "lit ''MAP'' \<notin> set (columns t) \<Longrightarrow> parse_row L t row = Inl (KeyError (lit ''MAP''))"
  "lit ''MAP'' \<in> set (columns t) \<Longrightarrow>
   py_float L (strip (replace_empty Rupee (replace_empty (Latin CHR '','')
     (str_value L (row (lit ''MAP'')))))) = Inl e \<Longrightarrow>
   parse_row L t row = Inl e"
  by (simp_all add: parse_row_def price_cell_missing price_cell_present)

section \<open>The generic validator: claims\<close>




text \<open>
  C2. Whenever some ruled, non-empty cell under a rule with \<open>min\<close> or \<open>max\<close> does
  not convert with \<open>float\<close>, \<open>validate_data\<close> does not return: an exception leaves
  it, and that exception is the failure of \<open>float\<close> on a cell of the table. No
  record stands for the failure.
\<close>

theorem conversion_fault_aborts:
  assumes "df self = Some t" and "(column, rule) \<in> set rules"
    and "column \<in> set (columns t)" and "row \<in> set (rows t)" and "\<not> isna (row column)"
    and "min_r rule \<noteq> None \<or> max_r rule \<noteq> None"
    and "float_value L (row column) = Inl e"
  shows "\<exists>e' row' column'. fst (validate_data L rules self) = Some e' \<and>
           row' \<in> set (rows t) \<and> float_value L (row' column') = Inl e'"
proof -
  let ?runs = "map (validate_row L t rules) (enumerate 0 (rows t))"
  obtain i where i: "i < length (rows t)" "rows t ! i = row"
    using assms(4) by (auto simp: in_set_conv_nth)
  have col: "fst (validate_column L t (i + 2) row (column, rule)) = Some e"
    using assms by (simp add: validate_column_fst_Some)
  have "\<exists>e1. fst (validate_row L t rules (i, row)) = Some e1"
    unfolding validate_row_def
    using all_runs_raises [of "validate_column L t (i + 2) row (column, rule)" _ e] assms(2) col
    by auto
  then obtain e1 where e1: "fst (validate_row L t rules (i, row)) = Some e1" ..
  have "validate_row L t rules (i, row) \<in> set ?runs"
    using nth_in_enumerate [OF i(1)] i(2) by auto
  from all_runs_raises [OF this e1]
  obtain e' where e': "fst (all_runs ?runs) = Some e'" ..
  from all_runs_fst_Some [OF e'] obtain j row' where
    jr: "(j, row') \<in> set (enumerate 0 (rows t))" "fst (validate_row L t rules (j, row')) = Some e'"
    by auto
  from jr(2) all_runs_fst_Some [of "map (validate_column L t (j + 2) row') rules" e']
  obtain c' rule' where "fst (validate_column L t (j + 2) row' (c', rule')) = Some e'"
    unfolding validate_row_def by auto
  then have "float_value L (row' c') = Inl e'"
    by (simp add: validate_column_fst_Some)
  moreover have "row' \<in> set (rows t)"
    using jr(1) by (auto simp: in_set_enumerate_eq)
  ultimately show ?thesis
    using e' assms(1) by (auto simp: validate_data_loaded)
qed

theorem conversion_fault_aborts_witness:
  "\<exists>e'. fst (validate_data decimal (validation_rules decimal)
           \<lparr>validation_results = [],
            df = Some \<lparr>columns = [lit ''Age''], rows = [\<lambda>c. Text (lit ''abc'')]\<rparr>\<rparr>) = Some e'"
proof -
  let ?t = "\<lparr>columns = [lit ''Age''], rows = [\<lambda>c. Text (lit ''abc'')]\<rparr> :: num table"
  have "float_value decimal (Text (lit ''abc'')) =
      Inl (ValueError (lit ''could not convert string to float: '' @ quoted (lit ''abc'')))"
    by (simp add: ev)
  from conversion_fault_aborts [of "\<lparr>validation_results = [], df = Some ?t\<rparr>" ?t "lit ''Age''"
      "snd (validation_rules decimal ! 2)" "validation_rules decimal" "\<lambda>c. Text (lit ''abc'')"
      decimal, OF _ _ _ _ _ _ this]
  show ?thesis by (auto simp: validation_rules_def)
qed












section \<open>The pricing validator: claims\<close>

text \<open>
  C5. For a row whose four cells are read (the prices with commas and the rupee
  sign removed, the tax rate with \<open>%\<close> removed, all stripped and converted with
  \<open>float\<close>), the tax rate is multiplied by 100 when it is below 1. When \<open>int\<close> of
  it succeeds, the row gets a \<open>Tax Error\<close> exactly when that integer differs from
  18 for a sale price above 999 and from 12 otherwise. When \<open>int\<close> raises (a NaN
  tax rate, as an empty cell gives), the row gets no \<open>Tax Error\<close> and one
  \<open>Data Error\<close> with the message of the exception.
\<close>

theorem tax_rule:
  assumes "df_w self = Some t" and "i < length (rows t)"
    and "lit ''MAP'' \<in> set (columns t)" and "lit ''MRP (O)'' \<in> set (columns t)"
    and "lit ''Sale Price (inc tax)'' \<in> set (columns t)" and "lit ''Tax Rate'' \<in> set (columns t)"
    and "py_float L (strip (replace_empty Rupee (replace_empty (Latin CHR '','')
           (str_value L ((rows t ! i) (lit ''MAP'')))))) = Inr map_price"
    and "py_float L (strip (replace_empty Rupee (replace_empty (Latin CHR '','')
           (str_value L ((rows t ! i) (lit ''MRP (O)'')))))) = Inr mrp"
    and "py_float L (strip (replace_empty Rupee (replace_empty (Latin CHR '','')
           (str_value L ((rows t ! i) (lit ''Sale Price (inc tax)'')))))) = Inr sale_price"
    and "py_float L (strip (replace_empty (Latin CHR ''%'')
           (str_value L ((rows t ! i) (lit ''Tax Rate''))))) = Inr x"
  shows "(\<forall>rate.
            py_int L (if py_lt L x (py_const L 1) then py_mul L x (py_const L 100) else x) =
              Inr rate \<longrightarrow>
            filter (\<lambda>e. Row_w e = i + 2 \<and> Type_w e = lit ''Tax Error'')
              (errors (snd (validate L self))) =
            (if rate \<noteq> (if py_gt L sale_price (py_const L 999) then 18 else 12) then
               [\<lparr>Row_w = i + 2, Type_w = lit ''Tax Error'',
                 Error_w = lit ''Incorrect tax rate '' @ py_str L (py_const L rate) @
                   lit ''% for Sale Price '' @ [Rupee] @ py_format L sale_price @
                   lit '' (should be '' @
                   py_str L (py_const L (if py_gt L sale_price (py_const L 999) then 18 else 12)) @
                   lit ''%)''\<rparr>]
             else [])) \<and>
         (\<forall>e.
            py_int L (if py_lt L x (py_const L 1) then py_mul L x (py_const L 100) else x) =
              Inl e \<longrightarrow>
            filter (\<lambda>e. Row_w e = i + 2 \<and> Type_w e = lit ''Tax Error'')
              (errors (snd (validate L self))) = [] \<and>
            filter (\<lambda>e. Row_w e = i + 2 \<and> Type_w e = lit ''Data Error'')
              (errors (snd (validate L self))) =
              [\<lparr>Row_w = i + 2, Type_w = lit ''Data Error'',
                Error_w = lit ''Invalid data in row: '' @ str_exn e\<rparr>])"
proof -
  note parsed = parse_row_parsed [OF assms(3-10)]
  note row = filter_row_type [OF validate_row_errors [OF assms(1) assms(2)]]
  show ?thesis
    unfolding row check_row_parsed [OF parsed]
    by (auto simp: price_error_def data_error_def tax_error_def expected_tax_def)
qed

theorem tax_rule_witness:
  "filter (\<lambda>e. Row_w e = 2 \<and> Type_w e = lit ''Tax Error'')
     (errors (snd (validate decimal
        \<lparr>df_w = Some \<lparr>columns = [lit ''MAP'', lit ''MRP (O)'', lit ''Sale Price (inc tax)'',
                                  lit ''Tax Rate''],
                       rows = [\<lambda>c. if c = lit ''MAP'' then Text (lit ''80'')
                                    else if c = lit ''MRP (O)'' then Text (lit ''90'')
                                    else if c = lit ''Sale Price (inc tax)''
                                      then Text (lit ''1200'')
                                    else Text (lit ''0.12'')]\<rparr>,
         errors = [], summary = None\<rparr>))) =
   [\<lparr>Row_w = 2, Type_w = lit ''Tax Error'',
     Error_w = lit ''Incorrect tax rate 12% for Sale Price '' @ [Rupee] @
               lit ''1,200.00 (should be 18%)''\<rparr>]"
proof -
  let ?row = "\<lambda>c. if c = lit ''MAP'' then Text (lit ''80'')
                                    else if c = lit ''MRP (O)'' then Text (lit ''90'')
                                    else if c = lit ''Sale Price (inc tax)''
                                      then Text (lit ''1200'')
                                    else Text (lit ''0.12'') :: num cell"
  let ?t = "\<lparr>columns = [lit ''MAP'', lit ''MRP (O)'', lit ''Sale Price (inc tax)'',
                                  lit ''Tax Rate''], rows = [?row]\<rparr>"
  let ?self = "\<lparr>df_w = Some ?t, errors = [], summary = None\<rparr>"
  have h1: "df_w ?self = Some ?t" by simp
  have h2: "0 < length (rows ?t)" by simp
  have c1: "lit ''MAP'' \<in> set (columns ?t)" and c2: "lit ''MRP (O)'' \<in> set (columns ?t)"
    and c3: "lit ''Sale Price (inc tax)'' \<in> set (columns ?t)"
    and c4: "lit ''Tax Rate'' \<in> set (columns ?t)"
    by simp_all
  have f1: "py_float decimal (strip (replace_empty Rupee (replace_empty (Latin CHR '','')
           (str_value decimal ((rows ?t ! 0) (lit ''MAP'')))))) = Inr (PyFloat 80 0)"
    by (simp add: ev replace_empty_def)
  have f2: "py_float decimal (strip (replace_empty Rupee (replace_empty (Latin CHR '','')
           (str_value decimal ((rows ?t ! 0) (lit ''MRP (O)'')))))) = Inr (PyFloat 90 0)"
    by (simp add: ev replace_empty_def)
  have f3: "py_float decimal (strip (replace_empty Rupee (replace_empty (Latin CHR '','')
           (str_value decimal ((rows ?t ! 0) (lit ''Sale Price (inc tax)'')))))) =
           Inr (PyFloat 1200 0)"
    by (simp add: ev replace_empty_def)
  have f4: "py_float decimal (strip (replace_empty (Latin CHR ''%'')
           (str_value decimal ((rows ?t ! 0) (lit ''Tax Rate''))))) = Inr (PyFloat 12 2)"
    by (simp add: ev replace_empty_def)
  have rate: "py_int decimal (if py_lt decimal (PyFloat 12 2) (py_const decimal 1)
      then py_mul decimal (PyFloat 12 2) (py_const decimal 100) else PyFloat 12 2) = Inr 12"
    by (simp add: ev)
  have gt: "py_gt decimal (PyFloat 1200 0) (py_const decimal 999)" by (simp add: ev)
  have st: "py_str decimal (py_const decimal 12) = lit ''12''"
    "py_str decimal (py_const decimal 18) = lit ''18''"
    by (simp_all add: ev)
  have fm: "py_format decimal (PyFloat 1200 0) = lit ''1,200.00''" by (simp add: ev)
  from tax_rule [OF h1 h2 c1 c2 c3 c4 f1 f2 f3 f4, THEN conjunct1, THEN spec, THEN mp, OF rate,
      unfolded add_0] gt st fm
  show ?thesis by simp
qed

theorem tax_rule_counterexample:
  "parse_row decimal
     \<lparr>columns = [lit ''MAP'', lit ''MRP (O)'', lit ''Sale Price (inc tax)'', lit ''Tax Rate''],
      rows = [\<lambda>c. if c = lit ''Tax Rate'' then Empty else Text (lit ''100'')]\<rparr>
     (\<lambda>c. if c = lit ''Tax Rate'' then Empty else Text (lit ''100'')) =
     Inr (PyFloat 100 0, PyFloat 100 0, PyFloat 100 0, PyNaN) \<and>
   py_int decimal PyNaN \<noteq> Inr 12 \<and>
   errors (snd (validate decimal
     \<lparr>df_w = Some \<lparr>columns = [lit ''MAP'', lit ''MRP (O)'', lit ''Sale Price (inc tax)'',
                               lit ''Tax Rate''],
                    rows = [\<lambda>c. if c = lit ''Tax Rate'' then Empty else Text (lit ''100'')]\<rparr>,
      errors = [], summary = None\<rparr>)) =
     [\<lparr>Row_w = 2, Type_w = lit ''Price Error'',
       Error_w = lit ''MAP ('' @ [Rupee] @ lit ''100.00) is greater than or equal to MRP ('' @
                 [Rupee] @ lit ''100.00)''\<rparr>,
      \<lparr>Row_w = 2, Type_w = lit ''Data Error'',
       Error_w = lit ''Invalid data in row: cannot convert float NaN to integer''\<rparr>]"
  by (simp add: web ev)

text \<open>
  C6. For a row whose four cells are read (the prices with commas and the rupee
  sign removed, stripped and converted with \<open>float\<close>), the run gives exactly one
  \<open>Price Error\<close> record for the row when MAP is greater than or equal to MRP, and
  none otherwise.
\<close>

theorem price_rule:
  assumes "df_w self = Some t" and "i < length (rows t)"
    and "lit ''MAP'' \<in> set (columns t)" and "lit ''MRP (O)'' \<in> set (columns t)"
    and "lit ''Sale Price (inc tax)'' \<in> set (columns t)" and "lit ''Tax Rate'' \<in> set (columns t)"
    and "py_float L (strip (replace_empty Rupee (replace_empty (Latin CHR '','')
           (str_value L ((rows t ! i) (lit ''MAP'')))))) = Inr map_price"
    and "py_float L (strip (replace_empty Rupee (replace_empty (Latin CHR '','')
           (str_value L ((rows t ! i) (lit ''MRP (O)'')))))) = Inr mrp"
    and "py_float L (strip (replace_empty Rupee (replace_empty (Latin CHR '','')
           (str_value L ((rows t ! i) (lit ''Sale Price (inc tax)'')))))) = Inr sale_price"
    and "py_float L (strip (replace_empty (Latin CHR ''%'')
           (str_value L ((rows t ! i) (lit ''Tax Rate''))))) = Inr x"
  shows "filter (\<lambda>e. Row_w e = i + 2 \<and> Type_w e = lit ''Price Error'')
           (errors (snd (validate L self))) =
         (if py_ge L map_price mrp then
            [\<lparr>Row_w = i + 2, Type_w = lit ''Price Error'',
              Error_w = lit ''MAP ('' @ [Rupee] @ py_format L map_price @
                        lit '') is greater than or equal to MRP ('' @ [Rupee] @
                        py_format L mrp @ lit '')''\<rparr>]
          else [])"
proof -
  note parsed = parse_row_parsed [OF assms(3-10)]
  have "filter (\<lambda>e. Type_w e = lit ''Price Error'') (check_row L t (i, rows t ! i)) =
      (if py_ge L map_price mrp then [price_error L (i + 2) map_price mrp] else [])"
    unfolding check_row_parsed [OF parsed]
    by (cases "py_int L (if py_lt L x (py_const L 1) then py_mul L x (py_const L 100) else x)")
      (simp_all add: price_error_def data_error_def tax_error_def)
  then show ?thesis
    unfolding filter_row_type [OF validate_row_errors [OF assms(1) assms(2)]]
    by (simp add: price_error_def)
qed

theorem price_rule_witness:
  "filter (\<lambda>e. Row_w e = 2 \<and> Type_w e = lit ''Price Error'')
     (errors (snd (validate decimal
        \<lparr>df_w = Some \<lparr>columns = [lit ''MAP'', lit ''MRP (O)'', lit ''Sale Price (inc tax)'',
                                  lit ''Tax Rate''],
                       rows = [\<lambda>c. if c = lit ''MAP'' then Text (lit ''100'')
                                    else if c = lit ''MRP (O)'' then Text (lit ''90'')
                                    else if c = lit ''Sale Price (inc tax)''
                                      then Text ([Rupee] @ lit ''1,200'')
                                    else Text (lit ''18%'')]\<rparr>,
         errors = [], summary = None\<rparr>))) =
   [\<lparr>Row_w = 2, Type_w = lit ''Price Error'',
     Error_w = lit ''MAP ('' @ [Rupee] @ lit ''100.00) is greater than or equal to MRP ('' @
               [Rupee] @ lit ''90.00)''\<rparr>]"
proof -
  let ?row = "\<lambda>c. if c = lit ''MAP'' then Text (lit ''100'')
                                    else if c = lit ''MRP (O)'' then Text (lit ''90'')
                                    else if c = lit ''Sale Price (inc tax)''
                                      then Text ([Rupee] @ lit ''1,200'')
                                    else Text (lit ''18%'') :: num cell"
  let ?t = "\<lparr>columns = [lit ''MAP'', lit ''MRP (O)'', lit ''Sale Price (inc tax)'',
                                  lit ''Tax Rate''], rows = [?row]\<rparr>"
  let ?self = "\<lparr>df_w = Some ?t, errors = [], summary = None\<rparr>"
  have h1: "df_w ?self = Some ?t" by simp
  have h2: "0 < length (rows ?t)" by simp
  have c1: "lit ''MAP'' \<in> set (columns ?t)" and c2: "lit ''MRP (O)'' \<in> set (columns ?t)"
    and c3: "lit ''Sale Price (inc tax)'' \<in> set (columns ?t)"
    and c4: "lit ''Tax Rate'' \<in> set (columns ?t)"
    by simp_all
  have f1: "py_float decimal (strip (replace_empty Rupee (replace_empty (Latin CHR '','')
           (str_value decimal ((rows ?t ! 0) (lit ''MAP'')))))) = Inr (PyFloat 100 0)"
    by (simp add: ev replace_empty_def)
  have f2: "py_float decimal (strip (replace_empty Rupee (replace_empty (Latin CHR '','')
           (str_value decimal ((rows ?t ! 0) (lit ''MRP (O)'')))))) = Inr (PyFloat 90 0)"
    by (simp add: ev replace_empty_def)
  have f3: "py_float decimal (strip (replace_empty Rupee (replace_empty (Latin CHR '','')
           (str_value decimal ((rows ?t ! 0) (lit ''Sale Price (inc tax)'')))))) =
           Inr (PyFloat 1200 0)"
    by (simp add: ev replace_empty_def)
  have f4: "py_float decimal (strip (replace_empty (Latin CHR ''%'')
           (str_value decimal ((rows ?t ! 0) (lit ''Tax Rate''))))) = Inr (PyFloat 18 0)"
    by (simp add: ev replace_empty_def)
  have ge: "py_ge decimal (PyFloat 100 0) (PyFloat 90 0)" by (simp add: ev)
  have fm: "py_format decimal (PyFloat 100 0) = lit ''100.00''"
    "py_format decimal (PyFloat 90 0) = lit ''90.00''"
    by (simp_all add: ev)
  from price_rule [OF h1 h2 c1 c2 c3 c4 f1 f2 f3 f4, unfolded add_0] ge fm
  show ?thesis by simp
qed

text \<open>
  C7. For a row where reading one of the four cells raises (a missing column or a
  cell that \<open>float\<close> rejects), the run returns, the records of the row are exactly
  one \<open>Data Error\<close> with the message of the exception, and the records of every
  row are those of its own check: the other rows are validated as before.
\<close>

theorem parse_failure_data_error:
  assumes "df_w self = Some t" and "i < length (rows t)"
    and "parse_row L t (rows t ! i) = Inl e"
  shows "fst (validate L self) = None \<and>
         filter (\<lambda>e. Row_w e = i + 2) (errors (snd (validate L self))) =
           [\<lparr>Row_w = i + 2, Type_w = lit ''Data Error'',
             Error_w = lit ''Invalid data in row: '' @ str_exn e\<rparr>] \<and>
         (\<forall>j<length (rows t).
            filter (\<lambda>e. Row_w e = j + 2) (errors (snd (validate L self))) =
              check_row L t (j, rows t ! j))"
  using validate_loaded [OF assms(1), of L] validate_row_errors [OF assms(1), of _ L]
    check_row_failed [OF assms(3), of i] assms(2)
  by (simp add: data_error_def)

theorem parse_failure_data_error_witness:
  "filter (\<lambda>e. Row_w e = 2)
     (errors (snd (validate decimal
        \<lparr>df_w = Some \<lparr>columns = [lit ''MAP'', lit ''MRP (O)'', lit ''Sale Price (inc tax)'',
                                  lit ''Tax Rate''],
                       rows = [\<lambda>c. if c = lit ''MAP'' then Text (lit ''abc'')
                                    else Text (lit ''18''),
                               \<lambda>c. if c = lit ''MAP'' then Text (lit ''100'')
                                    else if c = lit ''MRP (O)'' then Text (lit ''90'')
                                    else if c = lit ''Sale Price (inc tax)''
                                      then Text (lit ''1200'')
                                    else Text (lit ''18%'')]\<rparr>,
         errors = [], summary = None\<rparr>))) =
   [\<lparr>Row_w = 2, Type_w = lit ''Data Error'',
     Error_w = lit ''Invalid data in row: could not convert string to float: '' @
               quoted (lit ''abc'')\<rparr>] \<and>
   filter (\<lambda>e. Row_w e = 3)
     (errors (snd (validate decimal
        \<lparr>df_w = Some \<lparr>columns = [lit ''MAP'', lit ''MRP (O)'', lit ''Sale Price (inc tax)'',
                                  lit ''Tax Rate''],
                       rows = [\<lambda>c. if c = lit ''MAP'' then Text (lit ''abc'')
                                    else Text (lit ''18''),
                               \<lambda>c. if c = lit ''MAP'' then Text (lit ''100'')
                                    else if c = lit ''MRP (O)'' then Text (lit ''90'')
                                    else if c = lit ''Sale Price (inc tax)''
                                      then Text (lit ''1200'')
                                    else Text (lit ''18%'')]\<rparr>,
         errors = [], summary = None\<rparr>))) =
   [\<lparr>Row_w = 3, Type_w = lit ''Price Error'',
     Error_w = lit ''MAP ('' @ [Rupee] @ lit ''100.00) is greater than or equal to MRP ('' @
               [Rupee] @ lit ''90.00)''\<rparr>]"
proof -
  let ?r0 = "\<lambda>c. if c = lit ''MAP'' then Text (lit ''abc'') else Text (lit ''18'') :: num cell"
  let ?r1 = "\<lambda>c. if c = lit ''MAP'' then Text (lit ''100'')
                                    else if c = lit ''MRP (O)'' then Text (lit ''90'')
                                    else if c = lit ''Sale Price (inc tax)''
                                      then Text (lit ''1200'')
                                    else Text (lit ''18%'') :: num cell"
  let ?t = "\<lparr>columns = [lit ''MAP'', lit ''MRP (O)'', lit ''Sale Price (inc tax)'',
                                  lit ''Tax Rate''], rows = [?r0, ?r1]\<rparr>"
  let ?self = "\<lparr>df_w = Some ?t, errors = [], summary = None\<rparr>"
  have h1: "df_w ?self = Some ?t" by simp
  have h2: "0 < length (rows ?t)" by simp
  have h3: "parse_row decimal ?t (rows ?t ! 0) =
      Inl (ValueError (lit ''could not convert string to float: '' @ quoted (lit ''abc'')))"
    by (simp add: web ev)
  note th = parse_failure_data_error [OF h1 h2 h3]
  have second: "check_row decimal ?t (1, rows ?t ! 1) =
      [\<lparr>Row_w = 3, Type_w = lit ''Price Error'',
     Error_w = lit ''MAP ('' @ [Rupee] @ lit ''100.00) is greater than or equal to MRP ('' @
               [Rupee] @ lit ''90.00)''\<rparr>]"
    by (simp add: web ev)
  have "(1::nat) < length (rows ?t)" by simp
  from th [THEN conjunct2, THEN conjunct2, THEN spec, THEN mp, OF this] second
  have b: "filter (\<lambda>e. Row_w e = 3) (errors (snd (validate decimal ?self))) =
      [\<lparr>Row_w = 3, Type_w = lit ''Price Error'',
     Error_w = lit ''MAP ('' @ [Rupee] @ lit ''100.00) is greater than or equal to MRP ('' @
               [Rupee] @ lit ''90.00)''\<rparr>]"
    by (simp add: numeral_3_eq_3)
  from th [THEN conjunct2, THEN conjunct1]
  have a: "filter (\<lambda>e. Row_w e = 2) (errors (snd (validate decimal ?self))) =
   [\<lparr>Row_w = 2, Type_w = lit ''Data Error'',
     Error_w = lit ''Invalid data in row: could not convert string to float: '' @
               quoted (lit ''abc'')\<rparr>]"
    by (simp add: numeral_2_eq_2)
  from a b show ?thesis by (rule conjI)
qed

section \<open>Running twice\<close>

text \<open>
  C8. Both validators reset their list first: the outcome of a run does not depend
  on the records the validator held before, and running again on the validator a run
  left gives the same outcome, the same records in the same order.
\<close>

theorem validate_idempotent:
  "validate_data L rules (snd (validate_data L rules self)) = validate_data L rules self \<and>
   validate_data L rules (self\<lparr>validation_results := rs\<rparr>) = validate_data L rules self \<and>
   validate L (snd (validate L shop)) = validate L shop \<and>
   validate L (shop\<lparr>errors := es\<rparr>) = validate L shop"
proof (intro conjI)
  show "validate_data L rules (snd (validate_data L rules self)) = validate_data L rules self"
    by (cases "df self") (simp_all add: validate_data_def Let_def)
  show "validate_data L rules (self\<lparr>validation_results := rs\<rparr>) = validate_data L rules self"
    by (cases "df self") (simp_all add: validate_data_def Let_def)
  show "validate L (snd (validate L shop)) = validate L shop"
    by (cases "df_w shop") (simp_all add: validate_def validate_prices_and_tax_def Let_def)
  show "validate L (shop\<lparr>errors := es\<rparr>) = validate L shop"
    by (cases "df_w shop") (simp_all add: validate_def validate_prices_and_tax_def Let_def)
qed

theorem validate_idempotent_witness:
  "validate_data decimal (validation_rules decimal)
     (snd (validate_data decimal (validation_rules decimal)
        \<lparr>validation_results = [],
         df = Some \<lparr>columns = [lit ''Age''], rows = [\<lambda>c. Text (lit ''-5'')]\<rparr>\<rparr>)) =
   validate_data decimal (validation_rules decimal)
     \<lparr>validation_results = [],
      df = Some \<lparr>columns = [lit ''Age''], rows = [\<lambda>c. Text (lit ''-5'')]\<rparr>\<rparr>"
  by (rule validate_idempotent [THEN conjunct1])

end
